theory Spec2Isabelle
  imports Main
begin

section \<open>JavaScript values the component handles\<close>

text \<open>
  The component is the class \<open>Tabs\<close> of \<open>src/lib/components/Tabs/index.js\<close>. A method
  either completes or throws; a throw keeps the mutations made before it, so every
  method returns the error (if any) together with the state it leaves behind.
\<close>

datatype error = RangeError | TypeError

text \<open>A tab label is a string or, for the bare numbering, the number itself.\<close>

datatype jsval = JStr string | JNum nat

text \<open>
  String conversion of a non-negative integer (\<open>"Question " + i\<close>, and the interpolation
  of \<open>i\<close> into ids): its decimal digits, most significant first.
\<close>

definition digit_char :: "nat \<Rightarrow> char" where
  "digit_char d = ''0123456789'' ! d"

fun decimal :: "nat \<Rightarrow> string" where
  "decimal n = (if n < 10 then [digit_char n] else decimal (n div 10) @ [digit_char (n mod 10)])"

declare decimal.simps [simp del]

fun to_text :: "jsval \<Rightarrow> string" where
  "to_text (JStr s) = s"
| "to_text (JNum n) = decimal n"

text \<open>
  Indexing a NodeList with an integer, \<open>xs[i]\<close>: the element when \<open>0 \<le> i < xs.length\<close>,
  \<open>undefined\<close> otherwise (also for a negative index).
\<close>

definition item :: "'a list \<Rightarrow> int \<Rightarrow> 'a option" where
  "item xs i = (if 0 \<le> i \<and> i < int (length xs) then Some (xs ! nat i) else None)"

section \<open>Elements and widget state\<close>

text \<open>A child of the widget: its \<open>data-label\<close> attribute (absent is \<open>null\<close>) and the node.\<close>

record child =
  child_data_label :: "string option"
  node :: nat

text \<open>The button produced by \<open>tabTemplate\<close>, with the attributes the component writes.\<close>

record tab_el =
  tab_id :: string
  aria_controls :: string
  aria_selected :: string
  tabindex :: "string option"
  tab_data_label :: string
  text_label :: jsval

text \<open>The wrapper produced by \<open>panelTemplate\<close>.\<close>

record panel_el =
  panel_id :: string
  aria_labelledby :: string
  hidden :: bool
  content :: child

text \<open>The bound methods the instance registers as event listeners.\<close>

datatype handler = OnResize | NextTab

type_synonym listener = "string \<times> handler"

text \<open>
  The instance fields set by the constructor, and the part of the document the methods
  read and write:
  \<^item> \<open>children\<close>: \<open>this.children\<close>;
  \<^item> \<open>tab_nodes\<close>, \<open>panel_nodes\<close>: the results of
    \<open>this.querySelectorAll(".web-tabs__tab")\<close> and \<open>(".web-tabs__panel")\<close>, in document
    order; the tab controls are the element children of the tab list;
  \<^item> \<open>questions\<close>: for every \<open>web-question\<close> descendant, its set of event listeners;
  \<^item> \<open>window_listeners\<close>: the event listeners of \<open>window\<close> (a listener list holds no
    duplicates, so it is a set);
  \<^item> \<open>activeElement\<close>: the position of \<open>document.activeElement\<close> among the element
    children of its parent, the tab list, while a tab control has focus.
  The property \<open>activeTab\<close> is an integer.
\<close>

record tabs_widget =
  label :: "string option"
  activeTab :: int
  overflow :: bool
  prerenderedChildren :: "panel_el list option"
  tabs :: "tab_el list option"
  idSalt :: string
  children :: "child list"
  classList :: "string list"
  tab_nodes :: "tab_el list"
  panel_nodes :: "panel_el list"
  questions :: "listener set list"
  window_listeners :: "listener set"
  activeElement :: nat

text \<open>
  The constructor. The salt is the value returned by \<open>generateIdSalt("web-tab-")\<close>; the
  document part is what the page holds when the element is created.
\<close>

definition Tabs_constructor ::
  "string \<Rightarrow> child list \<Rightarrow> listener set list \<Rightarrow> tabs_widget" where
  "Tabs_constructor salt cs qs =
     \<lparr> label = None, activeTab = 0, overflow = False, prerenderedChildren = None,
       tabs = None, idSalt = salt, children = cs, classList = [''unresolved''],
       tab_nodes = [], panel_nodes = [], questions = qs, window_listeners = {},
       activeElement = 0 \<rparr>"

section \<open>Derivation pass\<close>

text \<open>The \<open>switch\<close> of \<open>tabTemplate\<close> (strict equality, first matching case).\<close>

definition tabLabel_switch :: "nat \<Rightarrow> string option \<Rightarrow> jsval" where
  "tabLabel_switch i tabLabel =
     (if tabLabel = Some ''question'' then JStr (''Question '' @ decimal i)
      else if tabLabel = Some ''sample'' then JStr (''Sample '' @ decimal i)
      else if tabLabel = Some [] \<or> tabLabel = None \<or> tabLabel = Some ''bare'' then JNum i
      else (case tabLabel of Some s \<Rightarrow> JStr s | None \<Rightarrow> JNum i))"

definition tabTemplate :: "string \<Rightarrow> nat \<Rightarrow> string option \<Rightarrow> tab_el" where
  "tabTemplate salt i tabLabel =
     (let l = tabLabel_switch i tabLabel in
      \<lparr> tab_id = ''web-tab-'' @ salt @ ''-'' @ decimal i,
        aria_controls = ''web-tab-'' @ salt @ ''-'' @ decimal i @ ''-panel'',
        aria_selected = ''false'',
        tabindex = Some ''-1'',
        tab_data_label = ''tab, '' @ to_text l,
        text_label = l \<rparr>)"

definition panelTemplate :: "string \<Rightarrow> nat \<Rightarrow> child \<Rightarrow> panel_el" where
  "panelTemplate salt i c =
     \<lparr> panel_id = ''web-tab-'' @ salt @ ''-'' @ decimal i @ ''-panel'',
       aria_labelledby = ''web-tab-'' @ salt @ ''-'' @ decimal i,
       hidden = True,
       content = c \<rparr>"

text \<open>The \<open>for\<close> loop of \<open>render\<close>: one push to each array per child, then \<open>i++\<close>.\<close>

fun render_loop ::
  "string \<Rightarrow> child list \<Rightarrow> nat \<Rightarrow> panel_el list \<Rightarrow> tab_el list \<Rightarrow> panel_el list \<times> tab_el list" where
  "render_loop salt [] i ps ts = (ps, ts)"
| "render_loop salt (c # cs) i ps ts =
     render_loop salt cs (i + 1)
       (ps @ [panelTemplate salt i c]) (ts @ [tabTemplate salt i (child_data_label c)])"

text \<open>
  \<open>render\<close>: derives the two arrays when \<open>prerenderedChildren\<close> is still \<open>null\<close> (an array,
  even an empty one, is truthy), and returns what the template interpolates.
\<close>

definition render ::
  "tabs_widget \<Rightarrow> (string option \<times> tab_el list option \<times> panel_el list option) \<times> tabs_widget" where
  "render w =
     (let w' = (case prerenderedChildren w of
                  Some _ \<Rightarrow> w
                | None \<Rightarrow>
                    (case render_loop (idSalt w) (children w) 1 [] [] of
                       (ps, ts) \<Rightarrow> w\<lparr>prerenderedChildren := Some ps, tabs := Some ts\<rparr>))
      in ((label w', tabs w', prerenderedChildren w'), w'))"

section \<open>Presentation sync\<close>

text \<open>
  \<open>_changeTab\<close>. The active tab is looked up before the guard; a missing one only throws
  at \<open>activeTab.setAttribute\<close>, after the first loop has run.
\<close>

definition changeTab :: "tabs_widget \<Rightarrow> error option \<times> tabs_widget" where
  "changeTab w =
     (let tabs0 = tab_nodes w;
          panels0 = panel_nodes w;
          activeTabEl = item tabs0 (activeTab w)
      in case item panels0 (activeTab w) of
           None \<Rightarrow> (None, w)
         | Some _ \<Rightarrow>
             (let tabs1 = map (\<lambda>t. t\<lparr>aria_selected := ''false'', tabindex := Some ''-1''\<rparr>) tabs0
              in case activeTabEl of
                   None \<Rightarrow> (Some TypeError, w\<lparr>tab_nodes := tabs1\<rparr>)
                 | Some _ \<Rightarrow>
                     (let a = nat (activeTab w);
                          tabs2 = tabs1[a := (tabs1 ! a)\<lparr>aria_selected := ''true'', tabindex := None\<rparr>];
                          panels1 = map (\<lambda>p. p\<lparr>hidden := True\<rparr>) panels0;
                          panels2 = panels1[a := (panels1 ! a)\<lparr>hidden := False\<rparr>]
                      in (None, w\<lparr>tab_nodes := tabs2, panel_nodes := panels2\<rparr>))))"

text \<open>
  \<open>updated\<close>: the host passes the names of the properties that changed.
\<close>

definition updated :: "string set \<Rightarrow> tabs_widget \<Rightarrow> error option \<times> tabs_widget" where
  "updated changedProperties w =
     (if ''activeTab'' \<in> changedProperties then changeTab w else (None, w))"

section \<open>Interaction controller\<close>

definition focusTab :: "int \<Rightarrow> tabs_widget \<Rightarrow> error option \<times> tabs_widget" where
  "focusTab index w =
     (case item (tab_nodes w) index of
        None \<Rightarrow> (Some RangeError, w)
      | Some _ \<Rightarrow> (None, w\<lparr>activeTab := index\<rparr>))"

definition previousTab :: "tabs_widget \<Rightarrow> error option \<times> tabs_widget" where
  "previousTab w = focusTab (activeTab w - 1) w"

definition nextTab :: "tabs_widget \<Rightarrow> error option \<times> tabs_widget" where
  "nextTab w = focusTab (activeTab w + 1) w"

text \<open>\<open>onResize\<close>; the argument is what \<open>checkOverflow(tabs, "width")\<close> measures.\<close>

definition onResize :: "bool \<Rightarrow> tabs_widget \<Rightarrow> tabs_widget" where
  "onResize measured w = w\<lparr>overflow := measured\<rparr>"

text \<open>
  \<open>onFocus\<close>, the \<open>@focus\<close> listener of every tab control. The argument is the position of
  \<open>e.currentTarget\<close> among the element children of the tab list; \<open>indexOf\<close> is -1 for an
  element that is not a tab control. Scrolling the tab into view changes none of the
  state kept here.
\<close>

definition onFocus :: "nat \<Rightarrow> tabs_widget \<Rightarrow> tabs_widget" where
  "onFocus tab w =
     (let index = (if tab < length (tab_nodes w) then int tab else - 1)
      in w\<lparr>activeTab := index\<rparr>)"

text \<open>
  Keyboard focus. An element has a next sibling unless it is the last child, a previous
  one unless it is the first, and a parent has a first and a last element child unless
  it has none. \<open>null.focus()\<close> throws. \<open>el.focus()\<close> on the element that already has focus
  does nothing; on another element it makes that element the active element and sends
  it the focus event, so that its listener \<open>onFocus\<close> runs before \<open>focus()\<close> returns.
\<close>

definition nextElementSibling :: "tabs_widget \<Rightarrow> nat option" where
  "nextElementSibling w =
     (if activeElement w + 1 < length (tab_nodes w) then Some (activeElement w + 1) else None)"

definition previousElementSibling :: "tabs_widget \<Rightarrow> nat option" where
  "previousElementSibling w =
     (if 0 < activeElement w then Some (activeElement w - 1) else None)"

definition firstElementChild :: "tabs_widget \<Rightarrow> nat option" where
  "firstElementChild w = (if tab_nodes w = [] then None else Some 0)"

definition lastElementChild :: "tabs_widget \<Rightarrow> nat option" where
  "lastElementChild w = (if tab_nodes w = [] then None else Some (length (tab_nodes w) - 1))"

definition focus :: "nat option \<Rightarrow> tabs_widget \<Rightarrow> error option \<times> tabs_widget" where
  "focus el w =
     (case el of
        None \<Rightarrow> (Some TypeError, w)
      | Some k \<Rightarrow>
          if k = activeElement w then (None, w)
          else (None, onFocus k (w\<lparr>activeElement := k\<rparr>)))"

definition focusFirstItem :: "tabs_widget \<Rightarrow> error option \<times> tabs_widget" where
  "focusFirstItem w = focus (firstElementChild w) w"

definition focusLastItem :: "tabs_widget \<Rightarrow> error option \<times> tabs_widget" where
  "focusLastItem w = focus (lastElementChild w) w"

definition focusNextItem :: "tabs_widget \<Rightarrow> error option \<times> tabs_widget" where
  "focusNextItem w =
     (case nextElementSibling w of Some k \<Rightarrow> focus (Some k) w | None \<Rightarrow> focusFirstItem w)"

definition focusPreviousItem :: "tabs_widget \<Rightarrow> error option \<times> tabs_widget" where
  "focusPreviousItem w =
     (case previousElementSibling w of Some k \<Rightarrow> focus (Some k) w | None \<Rightarrow> focusLastItem w)"

record key_event =
  keyCode :: nat
  defaultPrevented :: bool

definition preventDefault :: "key_event \<Rightarrow> key_event" where
  "preventDefault e = e\<lparr>defaultPrevented := True\<rparr>"

definition KEYCODE_END :: nat where "KEYCODE_END = 35"
definition KEYCODE_HOME :: nat where "KEYCODE_HOME = 36"
definition KEYCODE_LEFT :: nat where "KEYCODE_LEFT = 37"
definition KEYCODE_RIGHT :: nat where "KEYCODE_RIGHT = 39"

definition onKeydown ::
  "key_event \<Rightarrow> tabs_widget \<Rightarrow> error option \<times> key_event \<times> tabs_widget" where
  "onKeydown e w =
     (if keyCode e = KEYCODE_RIGHT then
        (case focusNextItem w of (r, w') \<Rightarrow> (r, preventDefault e, w'))
      else if keyCode e = KEYCODE_LEFT then
        (case focusPreviousItem w of (r, w') \<Rightarrow> (r, preventDefault e, w'))
      else if keyCode e = KEYCODE_HOME then
        (case focusFirstItem w of (r, w') \<Rightarrow> (r, preventDefault e, w'))
      else if keyCode e = KEYCODE_END then
        (case focusLastItem w of (r, w') \<Rightarrow> (r, preventDefault e, w'))
      else (None, e, w))"

section \<open>Lifecycle\<close>

text \<open>
  \<open>firstUpdated\<close>; the argument is the measurement \<open>onResize\<close> takes. The query for
  the \<open>web-question\<close> descendants always returns a list, so the early return never fires.
\<close>

definition firstUpdated :: "bool \<Rightarrow> tabs_widget \<Rightarrow> tabs_widget" where
  "firstUpdated measured w =
     (let w1 = w\<lparr>activeTab := 0\<rparr>;
          w2 = w1\<lparr>classList := removeAll ''unresolved'' (classList w1)\<rparr>;
          w3 = onResize measured w2
      in w3\<lparr>questions := map (insert (''request-nav-to-next'', NextTab)) (questions w3)\<rparr>)"

text \<open>
  \<open>connectedCallback\<close> and \<open>disconnectedCallback\<close>; the inherited callbacks they call
  first belong to the host framework and touch none of the fields modelled here.
\<close>

definition connectedCallback :: "tabs_widget \<Rightarrow> tabs_widget" where
  "connectedCallback w = w\<lparr>window_listeners := insert (''resize'', OnResize) (window_listeners w)\<rparr>"

definition disconnectedCallback :: "tabs_widget \<Rightarrow> tabs_widget" where
  "disconnectedCallback w = w\<lparr>window_listeners := window_listeners w - {(''resize'', OnResize)}\<rparr>"

text \<open>The ids an instance has produced: those of its cached tabs and panels.\<close>

definition widget_ids :: "tabs_widget \<Rightarrow> string set" where
  "widget_ids w =
     (case tabs w of None \<Rightarrow> {} | Some ts \<Rightarrow> set (map tab_id ts))
     \<union> (case prerenderedChildren w of None \<Rightarrow> {} | Some ps \<Rightarrow> set (map panel_id ps))"

text \<open>
  What the loop of \<open>render\<close> leaves in the two arrays when it starts from empty ones, in
  closed form: the \<open>k\<close>-th child, counted from 1, gives the \<open>k\<close>-th tab and panel.
\<close>

definition derived_tabs :: "string \<Rightarrow> child list \<Rightarrow> tab_el list" where
  "derived_tabs salt cs =
     map (\<lambda>(k, c). tabTemplate salt k (child_data_label c)) (zip [1..<1 + length cs] cs)"

definition derived_panels :: "string \<Rightarrow> child list \<Rightarrow> panel_el list" where
  "derived_panels salt cs =
     map (\<lambda>(k, c). panelTemplate salt k c) (zip [1..<1 + length cs] cs)"

section \<open>An example instance\<close>

text \<open>
  Three children labelled \<open>"question"\<close>, \<open>""\<close> and \<open>"Custom"\<close>, one nested question, and
  the document as it stands once the derived tabs and panels are in place.
\<close>

definition example_children :: "child list" where
  "example_children =
     [\<lparr>child_data_label = Some ''question'', node = 0\<rparr>,
      \<lparr>child_data_label = Some '''', node = 1\<rparr>,
      \<lparr>child_data_label = Some ''Custom'', node = 2\<rparr>]"

definition example_widget :: tabs_widget where
  "example_widget =
     (Tabs_constructor ''k3'' example_children [{}])
       \<lparr> tab_nodes := [tabTemplate ''k3'' 1 (Some ''question''), tabTemplate ''k3'' 2 (Some ''''),
                      tabTemplate ''k3'' 3 (Some ''Custom'')],
         panel_nodes := [panelTemplate ''k3'' 1 (example_children ! 0),
                        panelTemplate ''k3'' 2 (example_children ! 1),
                        panelTemplate ''k3'' 3 (example_children ! 2)] \<rparr>"

section \<open>Auxiliary facts\<close>

subsection \<open>Decimal digits\<close>

lemma digit_char_mem: "d < 10 \<Longrightarrow> digit_char d \<in> set ''0123456789''"
  unfolding digit_char_def by (rule nth_mem) simp

lemma digit_char_inj: "a < 10 \<Longrightarrow> b < 10 \<Longrightarrow> digit_char a = digit_char b \<Longrightarrow> a = b"
proof -
  assume a: "a < 10" and b: "b < 10" and eq: "digit_char a = digit_char b"
  have d: "distinct ''0123456789''" by simp
  have l: "length ''0123456789'' = 10" by simp
  from eq have "''0123456789'' ! a = ''0123456789'' ! b" by (simp add: digit_char_def)
  with d a b l show "a = b" by (simp only: nth_eq_iff_index_eq)
qed

lemma decimal_nonempty: "decimal n \<noteq> []"
  by (subst decimal.simps) simp

lemma decimal_digits: "set (decimal n) \<subseteq> set ''0123456789''"
proof (induction n rule: decimal.induct)
  case (1 n)
  show ?case
  proof (cases "n < 10")
    case True
    then show ?thesis
      using digit_char_mem [of n] by (subst decimal.simps) simp
  next
    case False
    have "digit_char (n mod 10) \<in> set ''0123456789''"
      by (rule digit_char_mem) simp
    with False "1.IH" show ?thesis
      by (subst decimal.simps) simp
  qed
qed

lemma decimal_inj: "decimal m = decimal n \<Longrightarrow> m = n"
proof (induction m arbitrary: n rule: decimal.induct)
  case (1 m)
  show ?case
  proof (cases "m < 10")
    case m: True
    show ?thesis
    proof (cases "n < 10")
      case True
      with m "1.prems" show ?thesis
        by (simp add: decimal.simps [of m] decimal.simps [of n] digit_char_inj)
    next
      case False
      with m "1.prems" decimal_nonempty [of "n div 10"] show ?thesis
        by (simp add: decimal.simps [of m] decimal.simps [of n])
    qed
  next
    case m: False
    show ?thesis
    proof (cases "n < 10")
      case True
      with m "1.prems" decimal_nonempty [of "m div 10"] show ?thesis
        by (simp add: decimal.simps [of m] decimal.simps [of n])
    next
      case False
      with m "1.prems" have eq: "decimal (m div 10) = decimal (n div 10)"
        and dg: "digit_char (m mod 10) = digit_char (n mod 10)"
        by (simp_all add: decimal.simps [of m] decimal.simps [of n])
      from "1.IH" [OF m eq] have q: "m div 10 = n div 10" .
      from dg have r: "m mod 10 = n mod 10"
        by (intro digit_char_inj) simp_all
      from q r show ?thesis
        by (metis div_mult_mod_eq)
    qed
  qed
qed

lemma dash_not_digit: "CHR ''-'' \<notin> set (decimal n)"
  using decimal_digits [of n] by auto

subsection \<open>Ids\<close>

lemma split_at_last_sep:
  "c \<notin> set d1 \<Longrightarrow> c \<notin> set d2 \<Longrightarrow> s1 @ c # d1 = s2 @ c # d2 \<Longrightarrow> s1 = s2 \<and> d1 = d2"
proof (induction s1 arbitrary: s2)
  case Nil
  then show ?case by (cases s2) auto
next
  case (Cons x s1)
  then show ?case by (cases s2) auto
qed

lemma salted_index_inj:
  assumes "s @ ''-'' @ decimal i = s' @ ''-'' @ decimal j"
  shows "s = s' \<and> i = j"
proof -
  from assms have "s @ CHR ''-'' # decimal i = s' @ CHR ''-'' # decimal j" by simp
  from split_at_last_sep [OF dash_not_digit dash_not_digit this]
  show ?thesis by (simp add: decimal_inj)
qed

lemma tab_id_not_panel_id:
  "tab_id (tabTemplate s i l) \<noteq> panel_id (panelTemplate s' j c)"
proof
  assume "tab_id (tabTemplate s i l) = panel_id (panelTemplate s' j c)"
  then have "(''web-tab-'' @ s @ ''-'') @ decimal i = (''web-tab-'' @ s' @ ''-'' @ decimal j) @ ''-panel''"
    by (simp add: tabTemplate_def panelTemplate_def Let_def)
  moreover have "last ((''web-tab-'' @ s @ ''-'') @ decimal i) = last (decimal i)"
    using decimal_nonempty [of i] by (rule last_appendR)
  moreover have "last ((''web-tab-'' @ s' @ ''-'' @ decimal j) @ ''-panel'') = CHR ''l''"
    by simp
  ultimately have "last (decimal i) = CHR ''l''"
    by simp
  then have "CHR ''l'' \<in> set (decimal i)"
    using decimal_nonempty [of i] last_in_set by metis
  with decimal_digits [of i] show False by auto
qed

subsection \<open>The loop\<close>

lemma render_loop_eq:
  "render_loop salt cs i ps ts =
     (ps @ map (\<lambda>(k, c). panelTemplate salt k c) (zip [i..<i + length cs] cs),
      ts @ map (\<lambda>(k, c). tabTemplate salt k (child_data_label c)) (zip [i..<i + length cs] cs))"
proof (induction cs arbitrary: i ps ts)
  case Nil
  show ?case by simp
next
  case (Cons c cs)
  have e: "[i..<i + length (c # cs)] = i # [i + 1..<i + 1 + length cs]"
    by (simp add: upt_conv_Cons del: upt_Suc)
  show ?case
    unfolding render_loop.simps Cons.IH e by simp
qed

subsection \<open>The derived arrays\<close>

lemma render_loop_start:
  "render_loop salt cs 1 [] [] = (derived_panels salt cs, derived_tabs salt cs)"
  by (simp only: render_loop_eq derived_tabs_def derived_panels_def append_Nil)

lemma length_derived [simp]:
  "length (derived_tabs salt cs) = length cs" "length (derived_panels salt cs) = length cs"
  by (simp_all add: derived_tabs_def derived_panels_def del: upt_Suc)

lemma nth_derived_tabs:
  "k < length cs \<Longrightarrow> derived_tabs salt cs ! k = tabTemplate salt (Suc k) (child_data_label (cs ! k))"
  by (simp add: derived_tabs_def del: upt_Suc)

lemma nth_derived_panels:
  "k < length cs \<Longrightarrow> derived_panels salt cs ! k = panelTemplate salt (Suc k) (cs ! k)"
  by (simp add: derived_panels_def del: upt_Suc)

lemma render_cached:
  "prerenderedChildren w = Some ps \<Longrightarrow> render w = ((label w, tabs w, Some ps), w)"
  by (simp add: render_def)

lemma render_fresh:
  "prerenderedChildren w = None \<Longrightarrow>
   render w =
     ((label w, Some (derived_tabs (idSalt w) (children w)), Some (derived_panels (idSalt w) (children w))),
      w\<lparr>prerenderedChildren := Some (derived_panels (idSalt w) (children w)),
        tabs := Some (derived_tabs (idSalt w) (children w))\<rparr>)"
  unfolding render_def render_loop_start by simp

lemma derived_tab_id:
  "k < length cs \<Longrightarrow> tab_id (derived_tabs salt cs ! k) = ''web-tab-'' @ salt @ ''-'' @ decimal (Suc k)"
  by (simp add: nth_derived_tabs tabTemplate_def Let_def)

lemma derived_panel_id:
  "k < length cs \<Longrightarrow>
   panel_id (derived_panels salt cs ! k) = ''web-tab-'' @ salt @ ''-'' @ decimal (Suc k) @ ''-panel''"
  by (simp add: nth_derived_panels panelTemplate_def)

lemma tab_id_text_inj:
  assumes "''web-tab-'' @ s @ ''-'' @ decimal i = ''web-tab-'' @ s' @ ''-'' @ decimal j"
  shows "s = s' \<and> i = j"
proof -
  from assms have "s @ ''-'' @ decimal i = s' @ ''-'' @ decimal j" by simp
  then show ?thesis by (rule salted_index_inj)
qed

lemma panel_id_text_inj:
  assumes "''web-tab-'' @ s @ ''-'' @ decimal i @ ''-panel'' = ''web-tab-'' @ s' @ ''-'' @ decimal j @ ''-panel''"
  shows "s = s' \<and> i = j"
proof -
  from assms have "s @ ''-'' @ decimal i = s' @ ''-'' @ decimal j" by simp
  then show ?thesis by (rule salted_index_inj)
qed

lemma tab_panel_text_ne:
  "''web-tab-'' @ s @ ''-'' @ decimal i \<noteq> ''web-tab-'' @ s' @ ''-'' @ decimal j @ ''-panel''"
  using tab_id_not_panel_id [of s i None s' j undefined]
  by (simp add: tabTemplate_def panelTemplate_def Let_def)

lemma widget_ids_fresh:
  assumes "prerenderedChildren w = None" and "x \<in> widget_ids (snd (render w))"
  shows "(\<exists>i. x = ''web-tab-'' @ idSalt w @ ''-'' @ decimal i)
       \<or> (\<exists>i. x = ''web-tab-'' @ idSalt w @ ''-'' @ decimal i @ ''-panel'')"
proof -
  let ?ts = "derived_tabs (idSalt w) (children w)"
  let ?ps = "derived_panels (idSalt w) (children w)"
  from assms(2) have "x \<in> tab_id ` set ?ts \<or> x \<in> panel_id ` set ?ps"
    unfolding render_fresh [OF assms(1)] widget_ids_def by simp
  then show ?thesis
  proof
    assume "x \<in> tab_id ` set ?ts"
    then obtain k where "k < length ?ts" "x = tab_id (?ts ! k)"
      by (auto simp: in_set_conv_nth)
    then have "x = ''web-tab-'' @ idSalt w @ ''-'' @ decimal (Suc k)"
      by (simp add: derived_tab_id)
    then show ?thesis by blast
  next
    assume "x \<in> panel_id ` set ?ps"
    then obtain k where "k < length ?ps" "x = panel_id (?ps ! k)"
      by (auto simp: in_set_conv_nth)
    then have "x = ''web-tab-'' @ idSalt w @ ''-'' @ decimal (Suc k) @ ''-panel''"
      by (simp add: derived_panel_id)
    then show ?thesis by blast
  qed
qed

lemma widget_ids_disjoint:
  assumes "prerenderedChildren w = None" "prerenderedChildren w' = None" "idSalt w' \<noteq> idSalt w"
  shows "widget_ids (snd (render w)) \<inter> widget_ids (snd (render w')) = {}"
proof -
  have False if x: "x \<in> widget_ids (snd (render w))" and x': "x \<in> widget_ids (snd (render w'))" for x
  proof -
    from widget_ids_fresh [OF assms(1) x]
    consider (t) i where "x = ''web-tab-'' @ idSalt w @ ''-'' @ decimal i"
      | (p) i where "x = ''web-tab-'' @ idSalt w @ ''-'' @ decimal i @ ''-panel''"
      by blast
    then show False
    proof cases
      case t
      from widget_ids_fresh [OF assms(2) x']
      consider (t') j where "x = ''web-tab-'' @ idSalt w' @ ''-'' @ decimal j"
        | (p') j where "x = ''web-tab-'' @ idSalt w' @ ''-'' @ decimal j @ ''-panel''"
        by blast
      then show False
      proof cases
        case t'
        with t have "''web-tab-'' @ idSalt w @ ''-'' @ decimal i = ''web-tab-'' @ idSalt w' @ ''-'' @ decimal j"
          by (simp only:)
        from tab_id_text_inj [OF this] assms(3) show False by simp
      next
        case p'
        with t have "''web-tab-'' @ idSalt w @ ''-'' @ decimal i = ''web-tab-'' @ idSalt w' @ ''-'' @ decimal j @ ''-panel''"
          by (simp only:)
        with tab_panel_text_ne show False by blast
      qed
    next
      case p
      from widget_ids_fresh [OF assms(2) x']
      consider (t') j where "x = ''web-tab-'' @ idSalt w' @ ''-'' @ decimal j"
        | (p') j where "x = ''web-tab-'' @ idSalt w' @ ''-'' @ decimal j @ ''-panel''"
        by blast
      then show False
      proof cases
        case t'
        with p have "''web-tab-'' @ idSalt w' @ ''-'' @ decimal j = ''web-tab-'' @ idSalt w @ ''-'' @ decimal i @ ''-panel''"
          by (simp only:)
        with tab_panel_text_ne show False by blast
      next
        case p'
        with p have "''web-tab-'' @ idSalt w @ ''-'' @ decimal i @ ''-panel'' = ''web-tab-'' @ idSalt w' @ ''-'' @ decimal j @ ''-panel''"
          by (simp only:)
        from panel_id_text_inj [OF this] assms(3) show False by simp
      qed
    qed
  qed
  then show ?thesis by blast
qed

lemma derived_ids_distinct:
  "distinct (map tab_id (derived_tabs salt cs) @ map panel_id (derived_panels salt cs))"
proof -
  let ?ts = "derived_tabs salt cs"
  let ?ps = "derived_panels salt cs"
  have d1: "distinct (map tab_id ?ts)"
    unfolding distinct_conv_nth
  proof (intro allI impI)
    fix i j
    assume i: "i < length (map tab_id ?ts)" and j: "j < length (map tab_id ?ts)" and ne: "i \<noteq> j"
    from i j have i': "i < length cs" and j': "j < length cs" by simp_all
    show "map tab_id ?ts ! i \<noteq> map tab_id ?ts ! j"
    proof
      assume "map tab_id ?ts ! i = map tab_id ?ts ! j"
      with i' j' have "tab_id (?ts ! i) = tab_id (?ts ! j)" by simp
      then have "''web-tab-'' @ salt @ ''-'' @ decimal (Suc i) = ''web-tab-'' @ salt @ ''-'' @ decimal (Suc j)"
        by (simp only: derived_tab_id [OF i'] derived_tab_id [OF j'])
      from tab_id_text_inj [OF this] ne show False by simp
    qed
  qed
  have d2: "distinct (map panel_id ?ps)"
    unfolding distinct_conv_nth
  proof (intro allI impI)
    fix i j
    assume i: "i < length (map panel_id ?ps)" and j: "j < length (map panel_id ?ps)" and ne: "i \<noteq> j"
    from i j have i': "i < length cs" and j': "j < length cs" by simp_all
    show "map panel_id ?ps ! i \<noteq> map panel_id ?ps ! j"
    proof
      assume "map panel_id ?ps ! i = map panel_id ?ps ! j"
      with i' j' have "panel_id (?ps ! i) = panel_id (?ps ! j)" by simp
      then have "''web-tab-'' @ salt @ ''-'' @ decimal (Suc i) @ ''-panel''
          = ''web-tab-'' @ salt @ ''-'' @ decimal (Suc j) @ ''-panel''"
        by (simp only: derived_panel_id [OF i'] derived_panel_id [OF j'])
      from panel_id_text_inj [OF this] ne show False by simp
    qed
  qed
  have d3: "set (map tab_id ?ts) \<inter> set (map panel_id ?ps) = {}"
  proof -
    have False if a: "x \<in> set (map tab_id ?ts)" and b: "x \<in> set (map panel_id ?ps)" for x
    proof -
      from a obtain i where i: "i < length cs" "x = tab_id (?ts ! i)"
        by (auto simp: in_set_conv_nth)
      from b obtain j where j: "j < length cs" "x = panel_id (?ps ! j)"
        by (auto simp: in_set_conv_nth)
      from i j have "''web-tab-'' @ salt @ ''-'' @ decimal (Suc i)
          = ''web-tab-'' @ salt @ ''-'' @ decimal (Suc j) @ ''-panel''"
        by (simp only: derived_tab_id [OF i(1)] derived_panel_id [OF j(1)])
      with tab_panel_text_ne show False by blast
    qed
    then show ?thesis by blast
  qed
  from d1 d2 d3 show ?thesis by (simp only: distinct_append)
qed

subsection \<open>Moving focus from a tab control\<close>



lemma onFocus_on_tab: "k < length (tab_nodes w) \<Longrightarrow> onFocus k w = w\<lparr>activeTab := int k\<rparr>"
  by (simp add: onFocus_def)






subsection \<open>Indices selected by a predicate\<close>

lemma filter_eq_index: "a < n \<Longrightarrow> filter (\<lambda>j. j = a) [0..<n] = [a]"
  by (induction n) (auto simp: less_Suc_eq)

lemma filter_upt_single:
  assumes "a < n" and "\<And>j. j < n \<Longrightarrow> P j \<longleftrightarrow> j = a"
  shows "filter P [0..<n] = [a]"
proof -
  have "filter P [0..<n] = filter (\<lambda>j. j = a) [0..<n]"
    using assms(2) by (intro filter_cong) auto
  then show ?thesis using assms(1) by (simp add: filter_eq_index)
qed

lemma changeTab_in_range:
  assumes "0 \<le> activeTab w" "activeTab w < int (length (tab_nodes w))"
    "activeTab w < int (length (panel_nodes w))"
  shows "changeTab w = (None, w\<lparr>
     tab_nodes := (map (\<lambda>t. t\<lparr>aria_selected := ''false'', tabindex := Some ''-1''\<rparr>) (tab_nodes w))
        [nat (activeTab w) := (tab_nodes w ! nat (activeTab w))\<lparr>aria_selected := ''true'', tabindex := None\<rparr>],
     panel_nodes := (map (\<lambda>p. p\<lparr>hidden := True\<rparr>) (panel_nodes w))
        [nat (activeTab w) := (panel_nodes w ! nat (activeTab w))\<lparr>hidden := False\<rparr>]\<rparr>)"
  using assms by (simp add: changeTab_def item_def Let_def)

lemma example_sizes:
  "length (tab_nodes example_widget) = 3" "length (panel_nodes example_widget) = 3"
  "activeTab example_widget = 0"
  by (simp_all add: example_widget_def Tabs_constructor_def)

section \<open>Presentation sync: the claims\<close>

text \<open>
  Claim C1. When \<open>activeTab\<close> is a valid index of both the tab and the panel sequence,
  \<open>_changeTab\<close> completes without error and leaves exactly one panel with
  \<open>hidden = false\<close> and exactly one tab with \<open>aria-selected = "true"\<close>, both at index
  \<open>activeTab\<close>; every other tab has \<open>aria-selected = "false"\<close> and \<open>tabindex = "-1"\<close>, and
  the active tab has no \<open>tabindex\<close> attribute.
\<close>

theorem changeTab_exactly_one:
  assumes "0 \<le> activeTab w" and "activeTab w < int (length (tab_nodes w))"
    and "activeTab w < int (length (panel_nodes w))"
    and "changeTab w = (r, w')"
  shows "r = None
    \<and> length (tab_nodes w') = length (tab_nodes w)
    \<and> length (panel_nodes w') = length (panel_nodes w)
    \<and> filter (\<lambda>j. \<not> hidden (panel_nodes w' ! j)) [0..<length (panel_nodes w')] = [nat (activeTab w)]
    \<and> filter (\<lambda>j. aria_selected (tab_nodes w' ! j) = ''true'') [0..<length (tab_nodes w')] = [nat (activeTab w)]
    \<and> (\<forall>j < length (tab_nodes w'). j \<noteq> nat (activeTab w) \<longrightarrow>
          aria_selected (tab_nodes w' ! j) = ''false'' \<and> tabindex (tab_nodes w' ! j) = Some ''-1'')
    \<and> tabindex (tab_nodes w' ! nat (activeTab w)) = None
    \<and> activeTab w' = activeTab w"
proof -
  let ?a = "nat (activeTab w)"
  have a: "?a < length (tab_nodes w)" "?a < length (panel_nodes w)"
    using assms(1-3) by auto
  note eq = changeTab_in_range [OF assms(1-3)]
  from eq assms(4) have r: "r = None" by simp
  from eq assms(4) have ts: "tab_nodes w' = (map (\<lambda>t. t\<lparr>aria_selected := ''false'', tabindex := Some ''-1''\<rparr>) (tab_nodes w))
        [?a := (tab_nodes w ! ?a)\<lparr>aria_selected := ''true'', tabindex := None\<rparr>]"
    by auto
  from eq assms(4) have ps: "panel_nodes w' = (map (\<lambda>p. p\<lparr>hidden := True\<rparr>) (panel_nodes w))
        [?a := (panel_nodes w ! ?a)\<lparr>hidden := False\<rparr>]"
    by auto
  from eq assms(4) have at: "activeTab w' = activeTab w" by auto
  have lt: "length (tab_nodes w') = length (tab_nodes w)" by (simp add: ts)
  have lp: "length (panel_nodes w') = length (panel_nodes w)" by (simp add: ps)
  have hid: "\<And>j. j < length (panel_nodes w') \<Longrightarrow> (\<not> hidden (panel_nodes w' ! j)) \<longleftrightarrow> j = ?a"
    using a by (simp add: ps nth_list_update)
  have sel: "\<And>j. j < length (tab_nodes w') \<Longrightarrow> aria_selected (tab_nodes w' ! j) = ''true'' \<longleftrightarrow> j = ?a"
    using a by (simp add: ts nth_list_update)
  have f1: "filter (\<lambda>j. \<not> hidden (panel_nodes w' ! j)) [0..<length (panel_nodes w')] = [?a]"
    using a(2) hid by (intro filter_upt_single) (simp_all add: lp)
  have f2: "filter (\<lambda>j. aria_selected (tab_nodes w' ! j) = ''true'') [0..<length (tab_nodes w')] = [?a]"
    using a(1) sel by (intro filter_upt_single) (simp_all add: lt)
  have others: "\<forall>j < length (tab_nodes w'). j \<noteq> ?a \<longrightarrow>
          aria_selected (tab_nodes w' ! j) = ''false'' \<and> tabindex (tab_nodes w' ! j) = Some ''-1''"
    by (simp add: ts nth_list_update)
  have act: "tabindex (tab_nodes w' ! ?a) = None"
    using a by (simp add: ts)
  from r lt lp f1 f2 others act at show ?thesis by blast
qed

theorem changeTab_exactly_one_witness:
  "0 \<le> activeTab (example_widget\<lparr>activeTab := 1\<rparr>)
   \<and> activeTab (example_widget\<lparr>activeTab := 1\<rparr>) < int (length (tab_nodes (example_widget\<lparr>activeTab := 1\<rparr>)))
   \<and> activeTab (example_widget\<lparr>activeTab := 1\<rparr>) < int (length (panel_nodes (example_widget\<lparr>activeTab := 1\<rparr>)))
   \<and> fst (changeTab (example_widget\<lparr>activeTab := 1\<rparr>)) = None
   \<and> filter (\<lambda>j. \<not> hidden (panel_nodes (snd (changeTab (example_widget\<lparr>activeTab := 1\<rparr>))) ! j)) [0..<3] = [1]
   \<and> filter (\<lambda>j. aria_selected (tab_nodes (snd (changeTab (example_widget\<lparr>activeTab := 1\<rparr>))) ! j) = ''true'') [0..<3] = [1]"
proof -
  let ?w = "example_widget\<lparr>activeTab := 1\<rparr>"
  have h1: "0 \<le> activeTab ?w" by simp
  have h2: "activeTab ?w < int (length (tab_nodes ?w))" by (simp add: example_sizes)
  have h3: "activeTab ?w < int (length (panel_nodes ?w))" by (simp add: example_sizes)
  have h4: "changeTab ?w = (fst (changeTab ?w), snd (changeTab ?w))" by simp
  note t = changeTab_exactly_one [OF h1 h2 h3 h4]
  have n: "nat (activeTab ?w) = 1" by simp
  from t have l: "length (tab_nodes (snd (changeTab ?w))) = 3"
    "length (panel_nodes (snd (changeTab ?w))) = 3"
    by (simp_all add: example_sizes)
  from t have r: "fst (changeTab ?w) = None" by blast
  from t have f1: "filter (\<lambda>j. \<not> hidden (panel_nodes (snd (changeTab ?w)) ! j)) [0..<3] = [1]"
    unfolding l n by blast
  from t have f2: "filter (\<lambda>j. aria_selected (tab_nodes (snd (changeTab ?w)) ! j) = ''true'') [0..<3] = [1]"
    unfolding l n by blast
  from h1 h2 h3 r f1 f2 show ?thesis by blast
qed

text \<open>
  Claim C8. When no panel exists at \<open>activeTab\<close>, \<open>_changeTab\<close> is a no-op: it throws
  nothing and leaves every tab, every panel and the rest of the state as they were
  (looking the active tab up before the guard has no effect).
\<close>

theorem changeTab_missing_panel:
  "item (panel_nodes w) (activeTab w) = None \<Longrightarrow> changeTab w = (None, w)"
  by (simp add: changeTab_def)

theorem changeTab_missing_panel_witness:
  "item (panel_nodes (example_widget\<lparr>activeTab := 3\<rparr>)) (activeTab (example_widget\<lparr>activeTab := 3\<rparr>)) = None
   \<and> changeTab (example_widget\<lparr>activeTab := 3\<rparr>) = (None, example_widget\<lparr>activeTab := 3\<rparr>)"
proof -
  have h: "item (panel_nodes (example_widget\<lparr>activeTab := 3\<rparr>)) (activeTab (example_widget\<lparr>activeTab := 3\<rparr>)) = None"
    by (simp add: item_def example_sizes)
  from changeTab_missing_panel [OF h] h show ?thesis by simp
qed

section \<open>Interaction controller: the claims\<close>

text \<open>
  Claim C2. For every integer \<open>i\<close>: when no tab exists at index \<open>i\<close> (\<open>i\<close> outside
  \<open>[0, count - 1]\<close>), \<open>focusTab(i)\<close> throws a RangeError and leaves \<open>activeTab\<close>, and the
  whole state, unchanged; when a tab exists at \<open>i\<close>, it sets \<open>activeTab\<close> to \<open>i\<close>, and the
  host's notification that \<open>activeTab\<close> changed runs \<open>_changeTab\<close> on that state.
\<close>

theorem focusTab_range:
  "(i < 0 \<or> int (length (tab_nodes w)) - 1 < i \<longrightarrow> focusTab i w = (Some RangeError, w))
   \<and> (0 \<le> i \<and> i \<le> int (length (tab_nodes w)) - 1 \<longrightarrow>
        focusTab i w = (None, w\<lparr>activeTab := i\<rparr>)
        \<and> (\<forall>changedProperties. ''activeTab'' \<in> changedProperties \<longrightarrow>
             updated changedProperties (snd (focusTab i w)) = changeTab (w\<lparr>activeTab := i\<rparr>)))"
  by (auto simp: focusTab_def item_def updated_def)

theorem focusTab_range_witness:
  "(int (length (tab_nodes example_widget)) - 1 < 3)
   \<and> focusTab 3 example_widget = (Some RangeError, example_widget)
   \<and> focusTab (- 1) example_widget = (Some RangeError, example_widget)
   \<and> (0 \<le> (2::int) \<and> 2 \<le> int (length (tab_nodes example_widget)) - 1)
   \<and> focusTab 2 example_widget = (None, example_widget\<lparr>activeTab := 2\<rparr>)
   \<and> updated {''activeTab''} (snd (focusTab 2 example_widget)) = changeTab (example_widget\<lparr>activeTab := 2\<rparr>)"
proof -
  have o: "int (length (tab_nodes example_widget)) - 1 < 3" "(- 1 :: int) < 0"
    and i: "0 \<le> (2::int) \<and> 2 \<le> int (length (tab_nodes example_widget)) - 1"
    by (simp_all add: example_sizes)
  from focusTab_range [of 3 example_widget] o(1)
  have a: "focusTab 3 example_widget = (Some RangeError, example_widget)" by blast
  from focusTab_range [of "- 1" example_widget] o(2)
  have b: "focusTab (- 1) example_widget = (Some RangeError, example_widget)" by blast
  from focusTab_range [of 2 example_widget] i
  have c: "focusTab 2 example_widget = (None, example_widget\<lparr>activeTab := 2\<rparr>)"
    and d: "\<forall>changedProperties. ''activeTab'' \<in> changedProperties \<longrightarrow>
             updated changedProperties (snd (focusTab 2 example_widget))
               = changeTab (example_widget\<lparr>activeTab := 2\<rparr>)"
    by blast+
  from d have e: "updated {''activeTab''} (snd (focusTab 2 example_widget))
      = changeTab (example_widget\<lparr>activeTab := 2\<rparr>)"
    by simp
  from o(1) a b i c e show ?thesis by blast
qed

text \<open>
  Claim C4. In every state \<open>previousTab()\<close> is \<open>focusTab(activeTab - 1)\<close> and \<open>nextTab()\<close>
  is \<open>focusTab(activeTab + 1)\<close>, with no clamping and no wraparound: \<open>previousTab()\<close> at
  index 0 and \<open>nextTab()\<close> at index \<open>count - 1\<close> throw the RangeError of \<open>focusTab\<close> and
  change nothing.
\<close>

theorem previousTab_nextTab:
  "previousTab w = focusTab (activeTab w - 1) w
   \<and> nextTab w = focusTab (activeTab w + 1) w
   \<and> (activeTab w = 0 \<longrightarrow> previousTab w = (Some RangeError, w))
   \<and> (activeTab w = int (length (tab_nodes w)) - 1 \<longrightarrow> nextTab w = (Some RangeError, w))"
  by (auto simp: previousTab_def nextTab_def focusTab_def item_def)

theorem previousTab_nextTab_witness:
  "activeTab example_widget = 0
   \<and> previousTab example_widget = (Some RangeError, example_widget)
   \<and> activeTab (example_widget\<lparr>activeTab := 2\<rparr>) = int (length (tab_nodes (example_widget\<lparr>activeTab := 2\<rparr>))) - 1
   \<and> nextTab (example_widget\<lparr>activeTab := 2\<rparr>) = (Some RangeError, example_widget\<lparr>activeTab := 2\<rparr>)"
proof -
  have h: "activeTab example_widget = 0"
    "activeTab (example_widget\<lparr>activeTab := 2\<rparr>)
       = int (length (tab_nodes (example_widget\<lparr>activeTab := 2\<rparr>))) - 1"
    by (simp_all add: example_sizes)
  from previousTab_nextTab [of example_widget] h(1)
  have a: "previousTab example_widget = (Some RangeError, example_widget)" by blast
  from previousTab_nextTab [of "example_widget\<lparr>activeTab := 2\<rparr>"] h(2)
  have b: "nextTab (example_widget\<lparr>activeTab := 2\<rparr>)
      = (Some RangeError, example_widget\<lparr>activeTab := 2\<rparr>)" by blast
  from h a b show ?thesis by blast
qed




text \<open>
  Claim C10. For a keydown event whose key code is none of Right (39), Left (37),
  Home (36) and End (35), \<open>onKeydown\<close> does nothing: no error, the event is not
  default-prevented by it, and focus, \<open>activeTab\<close> and all other state stay as they were.
\<close>

theorem onKeydown_other_key:
  "keyCode e \<noteq> KEYCODE_RIGHT \<Longrightarrow> keyCode e \<noteq> KEYCODE_LEFT \<Longrightarrow> keyCode e \<noteq> KEYCODE_HOME
   \<Longrightarrow> keyCode e \<noteq> KEYCODE_END \<Longrightarrow> onKeydown e w = (None, e, w)"
  by (simp add: onKeydown_def)

theorem onKeydown_other_key_witness:
  "keyCode \<lparr>keyCode = 13, defaultPrevented = False\<rparr> \<noteq> KEYCODE_RIGHT
   \<and> keyCode \<lparr>keyCode = 13, defaultPrevented = False\<rparr> \<noteq> KEYCODE_LEFT
   \<and> keyCode \<lparr>keyCode = 13, defaultPrevented = False\<rparr> \<noteq> KEYCODE_HOME
   \<and> keyCode \<lparr>keyCode = 13, defaultPrevented = False\<rparr> \<noteq> KEYCODE_END
   \<and> onKeydown \<lparr>keyCode = 13, defaultPrevented = False\<rparr> example_widget
       = (None, \<lparr>keyCode = 13, defaultPrevented = False\<rparr>, example_widget)"
proof -
  let ?e = "\<lparr>keyCode = 13, defaultPrevented = False\<rparr>"
  have h: "keyCode ?e \<noteq> KEYCODE_RIGHT" "keyCode ?e \<noteq> KEYCODE_LEFT"
    "keyCode ?e \<noteq> KEYCODE_HOME" "keyCode ?e \<noteq> KEYCODE_END"
    by (simp_all add: KEYCODE_RIGHT_def KEYCODE_LEFT_def KEYCODE_HOME_def KEYCODE_END_def)
  from onKeydown_other_key [OF h, of example_widget] h show ?thesis by simp
qed

section \<open>Derivation pass: the claims\<close>

text \<open>
  Claim C5. Rendering is idempotent: a second \<open>render\<close> returns what the first returned
  and leaves the state as the first left it, so after a first render from \<open>n\<close> children
  there are still exactly \<open>n\<close> cached tabs and \<open>n\<close> cached panels (also when the children
  have changed since), and \<open>render\<close> never changes \<open>activeTab\<close> or \<open>overflow\<close>.
\<close>

theorem render_idempotent:
  "render (snd (render w)) = render w
   \<and> activeTab (snd (render w)) = activeTab w
   \<and> overflow (snd (render w)) = overflow w
   \<and> (prerenderedChildren w = None \<longrightarrow>
        (\<exists>ts ps. length ts = length (children w) \<and> length ps = length (children w)
           \<and> fst (render w) = (label w, Some ts, Some ps)
           \<and> fst (render (snd (render w))) = (label w, Some ts, Some ps)
           \<and> (\<forall>cs. fst (render ((snd (render w))\<lparr>children := cs\<rparr>)) = (label w, Some ts, Some ps))))"
proof (cases "prerenderedChildren w")
  case None
  note f = render_fresh [OF None]
  let ?ts = "derived_tabs (idSalt w) (children w)"
  let ?ps = "derived_panels (idSalt w) (children w)"
  have c: "\<And>cs. render ((snd (render w))\<lparr>children := cs\<rparr>) = ((label w, Some ?ts, Some ?ps), (snd (render w))\<lparr>children := cs\<rparr>)"
    by (subst render_cached [where ps = "?ps"]) (simp_all add: f)
  have again: "render (snd (render w)) = render w"
    by (subst render_cached [where ps = "?ps"]) (simp_all add: f)
  have lens: "length ?ts = length (children w)" "length ?ps = length (children w)"
    by simp_all
  have st: "activeTab (snd (render w)) = activeTab w" "overflow (snd (render w)) = overflow w"
    by (simp_all add: f)
  have out: "fst (render w) = (label w, Some ?ts, Some ?ps)" by (simp add: f)
  have out2: "fst (render (snd (render w))) = (label w, Some ?ts, Some ?ps)"
    by (simp only: again out)
  have out3: "\<forall>cs. fst (render ((snd (render w))\<lparr>children := cs\<rparr>)) = (label w, Some ?ts, Some ?ps)"
    by (simp add: c)
  from again st lens out out2 out3 show ?thesis by blast
next
  case (Some ps)
  then show ?thesis by (simp add: render_cached)
qed

theorem render_idempotent_witness:
  "prerenderedChildren (Tabs_constructor ''k3'' example_children [{}]) = None
   \<and> render (snd (render (Tabs_constructor ''k3'' example_children [{}])))
       = render (Tabs_constructor ''k3'' example_children [{}])
   \<and> (\<exists>ts ps. length ts = 3 \<and> length ps = 3
        \<and> fst (render (snd (render (Tabs_constructor ''k3'' example_children [{}]))))
            = (None, Some ts, Some ps))"
proof -
  let ?w = "Tabs_constructor ''k3'' example_children [{}]"
  have h: "prerenderedChildren ?w = None" by (simp add: Tabs_constructor_def)
  have n: "length (children ?w) = 3" "label ?w = None"
    by (simp_all add: Tabs_constructor_def example_children_def)
  note t = render_idempotent [of ?w]
  from t have a: "render (snd (render ?w)) = render ?w" by blast
  from t h obtain ts ps where "length ts = length (children ?w)" "length ps = length (children ?w)"
    "fst (render (snd (render ?w))) = (label ?w, Some ts, Some ps)"
    by blast
  then have "\<exists>ts ps. length ts = 3 \<and> length ps = 3
        \<and> fst (render (snd (render ?w))) = (None, Some ts, Some ps)"
    unfolding n by blast
  with h a show ?thesis by blast
qed


text \<open>
  Claim C6. The first render of an instance with \<open>n\<close> children yields \<open>n\<close> tabs and
  \<open>n\<close> panels in child order; for every \<open>i\<close> from 1 to \<open>n\<close> the \<open>i\<close>-th tab has id
  \<open>web-tab-<salt>-<i>\<close>, the \<open>i\<close>-th panel has id \<open>web-tab-<salt>-<i>-panel\<close>, the tab's
  \<open>aria-controls\<close> is the panel's id and the panel's \<open>aria-labelledby\<close> is the tab's id;
  the ids of one instance are pairwise distinct, and two instances with distinct salts
  share no id.
\<close>

theorem derivation_parallel:
  assumes "prerenderedChildren w = None"
  shows "\<exists>ts ps.
      fst (render w) = (label w, Some ts, Some ps)
    \<and> tabs (snd (render w)) = Some ts \<and> prerenderedChildren (snd (render w)) = Some ps
    \<and> length ts = length (children w) \<and> length ps = length (children w)
    \<and> (\<forall>i. 1 \<le> i \<and> i \<le> length (children w) \<longrightarrow>
          tab_id (ts ! (i - 1)) = ''web-tab-'' @ idSalt w @ ''-'' @ decimal i
        \<and> panel_id (ps ! (i - 1)) = ''web-tab-'' @ idSalt w @ ''-'' @ decimal i @ ''-panel''
        \<and> aria_controls (ts ! (i - 1)) = panel_id (ps ! (i - 1))
        \<and> aria_labelledby (ps ! (i - 1)) = tab_id (ts ! (i - 1))
        \<and> content (ps ! (i - 1)) = children w ! (i - 1)
        \<and> text_label (ts ! (i - 1)) = tabLabel_switch i (child_data_label (children w ! (i - 1))))
    \<and> distinct (map tab_id ts @ map panel_id ps)
    \<and> (\<forall>w'. prerenderedChildren w' = None \<and> idSalt w' \<noteq> idSalt w \<longrightarrow>
          widget_ids (snd (render w)) \<inter> widget_ids (snd (render w')) = {})"
proof -
  let ?cs = "children w"
  let ?ts = "derived_tabs (idSalt w) ?cs"
  let ?ps = "derived_panels (idSalt w) ?cs"
  note f = render_fresh [OF assms]
  have o: "fst (render w) = (label w, Some ?ts, Some ?ps)" by (simp only: f fst_conv)
  have c: "tabs (snd (render w)) = Some ?ts" "prerenderedChildren (snd (render w)) = Some ?ps"
    by (simp_all add: f)
  have l: "length ?ts = length ?cs" "length ?ps = length ?cs"
    by simp_all
  have n: "tab_id (?ts ! (i - 1)) = ''web-tab-'' @ idSalt w @ ''-'' @ decimal i
        \<and> panel_id (?ps ! (i - 1)) = ''web-tab-'' @ idSalt w @ ''-'' @ decimal i @ ''-panel''
        \<and> aria_controls (?ts ! (i - 1)) = panel_id (?ps ! (i - 1))
        \<and> aria_labelledby (?ps ! (i - 1)) = tab_id (?ts ! (i - 1))
        \<and> content (?ps ! (i - 1)) = ?cs ! (i - 1)
        \<and> text_label (?ts ! (i - 1)) = tabLabel_switch i (child_data_label (?cs ! (i - 1)))"
    if "1 \<le> i \<and> i \<le> length ?cs" for i
  proof -
    from that have k: "i - 1 < length ?cs" and s: "Suc (i - 1) = i" by arith+
    have t: "?ts ! (i - 1) = tabTemplate (idSalt w) i (child_data_label (?cs ! (i - 1)))"
      using nth_derived_tabs [OF k, of "idSalt w"] by (simp only: s)
    have p: "?ps ! (i - 1) = panelTemplate (idSalt w) i (?cs ! (i - 1))"
      using nth_derived_panels [OF k, of "idSalt w"] by (simp only: s)
    show ?thesis unfolding t p by (simp add: tabTemplate_def panelTemplate_def Let_def)
  qed
  have d: "distinct (map tab_id ?ts @ map panel_id ?ps)"
    by (rule derived_ids_distinct)
  have x: "\<forall>w'. prerenderedChildren w' = None \<and> idSalt w' \<noteq> idSalt w \<longrightarrow>
          widget_ids (snd (render w)) \<inter> widget_ids (snd (render w')) = {}"
    using widget_ids_disjoint [OF assms] by blast
  show ?thesis
    apply (rule exI [of _ ?ts])
    apply (rule exI [of _ ?ps])
    apply (intro conjI allI impI)
    using o c l d x n by blast+
qed

theorem derivation_parallel_witness:
  "prerenderedChildren (Tabs_constructor ''k3'' example_children [{}]) = None
   \<and> (\<exists>ts ps. tabs (snd (render (Tabs_constructor ''k3'' example_children [{}]))) = Some ts
        \<and> prerenderedChildren (snd (render (Tabs_constructor ''k3'' example_children [{}]))) = Some ps
        \<and> length ts = 3 \<and> length ps = 3
        \<and> tab_id (ts ! 1) = ''web-tab-k3-2'' \<and> panel_id (ps ! 1) = ''web-tab-k3-2-panel''
        \<and> aria_controls (ts ! 1) = ''web-tab-k3-2-panel'' \<and> aria_labelledby (ps ! 1) = ''web-tab-k3-2'')"
proof -
  let ?w = "Tabs_constructor ''k3'' example_children [{}]"
  have h: "prerenderedChildren ?w = None" by (simp add: Tabs_constructor_def)
  have n: "length (children ?w) = 3" "idSalt ?w = ''k3''"
    by (simp_all add: Tabs_constructor_def example_children_def)
  have d: "decimal 2 = ''2''" by (simp add: decimal.simps digit_char_def)
  from derivation_parallel [OF h] obtain ts ps where
    a: "tabs (snd (render ?w)) = Some ts" "prerenderedChildren (snd (render ?w)) = Some ps"
      "length ts = length (children ?w)" "length ps = length (children ?w)"
    and b: "\<forall>i. 1 \<le> i \<and> i \<le> length (children ?w) \<longrightarrow>
          tab_id (ts ! (i - 1)) = ''web-tab-'' @ idSalt ?w @ ''-'' @ decimal i
        \<and> panel_id (ps ! (i - 1)) = ''web-tab-'' @ idSalt ?w @ ''-'' @ decimal i @ ''-panel''
        \<and> aria_controls (ts ! (i - 1)) = panel_id (ps ! (i - 1))
        \<and> aria_labelledby (ps ! (i - 1)) = tab_id (ts ! (i - 1))
        \<and> content (ps ! (i - 1)) = children ?w ! (i - 1)
        \<and> text_label (ts ! (i - 1)) = tabLabel_switch i (child_data_label (children ?w ! (i - 1)))"
    by blast
  from b [rule_format, of 2] have e: "tab_id (ts ! 1) = ''web-tab-k3-2''"
    "panel_id (ps ! 1) = ''web-tab-k3-2-panel''"
    "aria_controls (ts ! 1) = ''web-tab-k3-2-panel''" "aria_labelledby (ps ! 1) = ''web-tab-k3-2''"
    by (simp_all add: n d)
  from a have "length ts = 3" "length ps = 3" by (simp_all add: n)
  with a(1,2) e h show ?thesis by blast
qed

text \<open>
  Claim C3. Label resolution is a total function of the declared label and the 1-based
  index \<open>i\<close> alone: \<open>"question"\<close> gives \<open>"Question " + i\<close>, \<open>"sample"\<close> gives
  \<open>"Sample " + i\<close>, the empty string, \<open>null\<close> and \<open>"bare"\<close> give the number \<open>i\<close>, and any
  other string is used unchanged, whatever the index and the salt.
\<close>

theorem label_resolution:
  "text_label (tabTemplate salt i (Some ''question'')) = JStr (''Question '' @ decimal i)
   \<and> text_label (tabTemplate salt i (Some ''sample'')) = JStr (''Sample '' @ decimal i)
   \<and> text_label (tabTemplate salt i (Some '''')) = JNum i
   \<and> text_label (tabTemplate salt i None) = JNum i
   \<and> text_label (tabTemplate salt i (Some ''bare'')) = JNum i
   \<and> (s \<noteq> ''question'' \<and> s \<noteq> ''sample'' \<and> s \<noteq> '''' \<and> s \<noteq> ''bare''
        \<longrightarrow> text_label (tabTemplate salt i (Some s)) = JStr s)"
  by (simp add: tabTemplate_def tabLabel_switch_def)

theorem label_resolution_witness:
  "text_label (tabTemplate ''k3'' 3 (Some ''question'')) = JStr ''Question 3''
   \<and> text_label (tabTemplate ''k3'' 2 (Some ''sample'')) = JStr ''Sample 2''
   \<and> text_label (tabTemplate ''k3'' 5 (Some '''')) = JNum 5
   \<and> text_label (tabTemplate ''k3'' 5 None) = JNum 5
   \<and> text_label (tabTemplate ''k3'' 5 (Some ''bare'')) = JNum 5
   \<and> text_label (tabTemplate ''k3'' 7 (Some ''Overview'')) = JStr ''Overview''"
proof -
  have d: "decimal 3 = ''3''" "decimal 2 = ''2''"
    by (simp_all add: decimal.simps digit_char_def)
  have "''Overview'' \<noteq> ''question'' \<and> ''Overview'' \<noteq> ''sample'' \<and> ''Overview'' \<noteq> '''' \<and> ''Overview'' \<noteq> ''bare''"
    by simp
  then show ?thesis
    using label_resolution [of "''k3''" 3 "''Overview''"] label_resolution [of "''k3''" 2 "''Overview''"]
      label_resolution [of "''k3''" 5 "''Overview''"] label_resolution [of "''k3''" 7 "''Overview''"] d
    by simp
qed

section \<open>Lifecycle: the claims\<close>

text \<open>
  Claim C9, as stated, asks that the \<open>request-nav-to-next\<close> subscriptions placed on the
  nested questions at first render be released at unmount. They are not: after attach,
  first render and detach, the question of the example instance, which had no listener
  before, still holds the \<open>nextTab\<close> listener of the instance.
\<close>

theorem question_listener_survives_detach:
  "(''request-nav-to-next'', NextTab)
     \<in> questions (disconnectedCallback (firstUpdated False
          (connectedCallback (Tabs_constructor ''k3'' example_children [{}])))) ! 0"
  by (simp add: disconnectedCallback_def firstUpdated_def connectedCallback_def onResize_def
      Tabs_constructor_def Let_def)

text \<open>
  Claim C9, amended. \<open>connectedCallback\<close> registers the resize listener on the window and
  \<open>disconnectedCallback\<close> removes it, whatever happened in between. \<open>firstUpdated\<close> adds
  the \<open>nextTab\<close> listener for \<open>request-nav-to-next\<close> to every nested question, and
  \<open>disconnectedCallback\<close> leaves the listeners of the questions as they are: after attach,
  first render and detach every nested question still holds that listener.
\<close>

theorem listeners_on_detach:
  "(''resize'', OnResize) \<in> window_listeners (connectedCallback w)
   \<and> (''resize'', OnResize) \<notin> window_listeners (disconnectedCallback v)
   \<and> questions (disconnectedCallback v) = questions v
   \<and> length (questions (firstUpdated m w)) = length (questions w)
   \<and> (\<forall>k < length (questions w).
        questions (firstUpdated m w) ! k = insert (''request-nav-to-next'', NextTab) (questions w ! k))
   \<and> (\<forall>q \<in> set (questions (disconnectedCallback (firstUpdated m (connectedCallback w)))).
        (''request-nav-to-next'', NextTab) \<in> q)
   \<and> (''resize'', OnResize)
        \<notin> window_listeners (disconnectedCallback (firstUpdated m (connectedCallback w)))"
  by (auto simp: disconnectedCallback_def firstUpdated_def connectedCallback_def onResize_def Let_def)

theorem listeners_on_detach_witness:
  "0 < length (questions (Tabs_constructor ''k3'' example_children [{}]))
   \<and> questions (firstUpdated False (Tabs_constructor ''k3'' example_children [{}])) ! 0
       = {(''request-nav-to-next'', NextTab)}
   \<and> questions (disconnectedCallback (firstUpdated False (connectedCallback
        (Tabs_constructor ''k3'' example_children [{}])))) = [{(''request-nav-to-next'', NextTab)}]
   \<and> (''resize'', OnResize) \<notin> window_listeners (disconnectedCallback (firstUpdated False
        (connectedCallback (Tabs_constructor ''k3'' example_children [{}]))))"
proof -
  let ?w = "Tabs_constructor ''k3'' example_children [{}]"
  have q: "questions ?w = [{}]" by (simp add: Tabs_constructor_def)
  note t = listeners_on_detach [of ?w "firstUpdated False (connectedCallback ?w)" False]
  have h: "0 < length (questions ?w)" by (simp add: q)
  from t h have a: "questions (firstUpdated False ?w) ! 0 = {(''request-nav-to-next'', NextTab)}"
    by (simp add: q)
  from t have b: "(''resize'', OnResize) \<notin> window_listeners (disconnectedCallback (firstUpdated False
        (connectedCallback ?w)))" by blast
  have c: "questions (disconnectedCallback (firstUpdated False (connectedCallback ?w)))
      = [{(''request-nav-to-next'', NextTab)}]"
    by (simp add: disconnectedCallback_def firstUpdated_def connectedCallback_def onResize_def
      Tabs_constructor_def Let_def)
  from h a b c show ?thesis by blast
qed

end
